theory Spec2Isabelle
  imports Main
begin

section \<open>The chessOS backend as a shallow embedding\<close>

text \<open>
  The backend is five Python modules: \<^verbatim>\<open>app/core/config.py\<close> (the settings
  singleton), \<^verbatim>\<open>app/services/stockfish/engine.py\<close> (the engine status),
  \<^verbatim>\<open>app/schemas/analysis.py\<close> (the response schema),
  \<^verbatim>\<open>app/api/v1/routes/play_bot.py\<close> (one handler) and \<^verbatim>\<open>app/main.py\<close>
  (route registration). Each module is embedded below in the order of its imports. A
  sixth module, \<^verbatim>\<open>app/api/v1/routes/health.py\<close>, is imported by \<^verbatim>\<open>main.py\<close> and is not
  among them; only the router it exports is modelled.
  Module globals become fields of an explicit \<open>world\<close> that every function takes and
  returns; a raised exception is the \<open>Inl\<close> of a sum.
\<close>

subsection \<open>Python values\<close>

text \<open>A raised exception, identified by the name of its class.\<close>

datatype exn = Raised string

text \<open>
  Python's \<^verbatim>\<open>bool(x)\<close> for \<^verbatim>\<open>x: str | None\<close>: \<^verbatim>\<open>None\<close> is falsy, and a string is
  truthy exactly when its length is not zero.
\<close>

fun bool_of :: "string option \<Rightarrow> bool" where
  "bool_of None = False"
| "bool_of (Some s) = (length s \<noteq> 0)"

text \<open>
  A keyword argument with a default: \<open>None\<close> when the caller leaves the argument out,
  \<open>Some v\<close> when the caller passes \<open>v\<close> (which may itself be Python's \<^verbatim>\<open>None\<close>).
\<close>

definition kwarg :: "'a \<Rightarrow> 'a option \<Rightarrow> 'a" where
  "kwarg dflt given = (case given of None \<Rightarrow> dflt | Some v \<Rightarrow> v)"

text \<open>
  The \<^verbatim>\<open>__setattr__\<close> that \<^verbatim>\<open>@dataclass\<close> gives a class: with \<^verbatim>\<open>frozen=True\<close>
  every assignment to an instance raises \<^verbatim>\<open>FrozenInstanceError\<close> and the instance is
  left as it was; without it the field is updated.
\<close>

definition dataclass_setattr :: "bool \<Rightarrow> ('o \<Rightarrow> 'o) \<Rightarrow> 'o \<Rightarrow> exn + 'o" where
  "dataclass_setattr is_frozen upd obj =
     (if is_frozen then Inl (Raised ''FrozenInstanceError'') else Inr (upd obj))"

subsection \<open>\<^verbatim>\<open>app/core/config.py\<close>\<close>

text \<open>\<^verbatim>\<open>os.environ\<close>, and \<^verbatim>\<open>os.getenv(key)\<close>, which is \<^verbatim>\<open>None\<close> for a variable that is not set.\<close>

type_synonym env = "string \<rightharpoonup> string"

definition os_getenv :: "env \<Rightarrow> string \<Rightarrow> string option" where
  "os_getenv e key = e key"

text \<open>
  \<^verbatim>\<open>@dataclass(frozen=True) class Settings: stockfish_path: str | None = os.getenv("STOCKFISH_PATH")\<close>.
  The default is an expression of the class body, so it is evaluated once, when the module
  is imported (\<open>Settings_default\<close>); \<open>Settings_init\<close> is the generated constructor.
\<close>

record Settings =
  stockfish_path :: "string option"

definition Settings_frozen :: bool where
  "Settings_frozen = True"

definition Settings_default :: "env \<Rightarrow> string option" where
  "Settings_default e = os_getenv e ''STOCKFISH_PATH''"

definition Settings_init :: "string option \<Rightarrow> string option option \<Rightarrow> Settings" where
  "Settings_init dflt given = \<lparr>stockfish_path = kwarg dflt given\<rparr>"

text \<open>The statement \<^verbatim>\<open>s.stockfish_path = v\<close> on a \<open>Settings\<close> instance.\<close>

definition Settings_set_stockfish_path :: "string option \<Rightarrow> Settings \<Rightarrow> exn + Settings" where
  "Settings_set_stockfish_path v s =
     dataclass_setattr Settings_frozen (\<lambda>t. t\<lparr>stockfish_path := v\<rparr>) s"

subsection \<open>The process state\<close>

text \<open>
  What the functions of the service can read or change: the process environment, the
  module global \<^verbatim>\<open>app.core.config.settings\<close>, and the binaries the process has launched
  as subprocesses, in order.
\<close>

record world =
  environ :: env
  settings :: Settings
  processes :: "string list"

text \<open>
  Importing \<^verbatim>\<open>app.core.config\<close> in a process started with environment \<open>e\<close>: the class
  body reads the variable, then \<^verbatim>\<open>settings = Settings()\<close> is built with no argument.
\<close>

definition startup :: "env \<Rightarrow> world" where
  "startup e =
     \<lparr>environ = e, settings = Settings_init (Settings_default e) None, processes = []\<rparr>"

subsection \<open>\<^verbatim>\<open>app/services/stockfish/engine.py\<close>\<close>

text \<open>
  \<^verbatim>\<open>@dataclass class EngineStatus: ready: bool; path: str | None\<close>, and
  \<^verbatim>\<open>get_engine_status()\<close>, which reads the global \<^verbatim>\<open>settings\<close> and writes nothing.
\<close>

record EngineStatus =
  ready :: bool
  path :: "string option"

definition get_engine_status :: "world \<Rightarrow> EngineStatus \<times> world" where
  "get_engine_status w =
     (\<lparr>ready = bool_of (stockfish_path (settings w)), path = stockfish_path (settings w)\<rparr>, w)"

text \<open>
  \<open>EngineStatus\<close> is a plain \<^verbatim>\<open>@dataclass\<close>: its instances can be assigned to.
\<close>

definition EngineStatus_frozen :: bool where
  "EngineStatus_frozen = False"

definition EngineStatus_set_ready :: "bool \<Rightarrow> EngineStatus \<Rightarrow> exn + EngineStatus" where
  "EngineStatus_set_ready v s =
     dataclass_setattr EngineStatus_frozen (\<lambda>t. t\<lparr>ready := v\<rparr>) s"

subsection \<open>\<^verbatim>\<open>app/schemas/analysis.py\<close>\<close>

text \<open>
  \<^verbatim>\<open>class AnalysisResponse(BaseModel): best_move: str | None = None; evaluation: float | None = None\<close>.
  The class body is a list of declared fields, each with its annotation and its default
  (\<open>AnalysisResponse_fields\<close>, in the order of the body); an instance holds one value per
  declared field. The carrier \<open>'f\<close> of Python's floats stays abstract: nothing below
  computes with one.
\<close>

datatype annotation = Str | Float | NoneType | Union annotation annotation

datatype dflt = DefaultNone

record field_info =
  field_annotation :: annotation
  field_default :: dflt

definition AnalysisResponse_fields :: "(string \<times> field_info) list" where
  "AnalysisResponse_fields =
     [(''best_move'', \<lparr>field_annotation = Union Str NoneType, field_default = DefaultNone\<rparr>),
      (''evaluation'', \<lparr>field_annotation = Union Float NoneType, field_default = DefaultNone\<rparr>)]"

record 'f AnalysisResponse =
  best_move :: "string option"
  evaluation :: "'f option"

text \<open>
  The constructor, called with keyword arguments; an argument left out takes the default
  of its field, which is \<^verbatim>\<open>None\<close> for both.
\<close>

definition AnalysisResponse_init ::
  "string option option \<Rightarrow> 'f option option \<Rightarrow> 'f AnalysisResponse" where
  "AnalysisResponse_init given_best_move given_evaluation =
     \<lparr>best_move = kwarg None given_best_move, evaluation = kwarg None given_evaluation\<rparr>"

subsection \<open>Routes\<close>

text \<open>
  A route as an application or a router stores it: the HTTP verbs (a set in Python, here
  a list in alphabetical order), the path, the handler, the tags, and whether the route
  is an operation of the API schema. The handlers are the two of the service and the four
  that the framework defines for its documentation pages.
\<close>

datatype handler =
  Health
| PlayBotStatus
| Openapi
| SwaggerUiHtml
| SwaggerUiRedirect
| RedocHtml

record route =
  verbs :: "string list"
  route_path :: string
  endpoint :: handler
  tags :: "string list"
  include_in_schema :: bool

type_synonym router = "route list"

text \<open>
  \<^verbatim>\<open>@router.get(path)\<close> on an \<^verbatim>\<open>APIRouter\<close> appends an \<^verbatim>\<open>APIRoute\<close>: the verb is
  \<^verbatim>\<open>GET\<close> alone, there are no tags, and the route is part of the schema.
\<close>

definition router_get :: "router \<Rightarrow> string \<Rightarrow> handler \<Rightarrow> router" where
  "router_get r p h =
     r @ [\<lparr>verbs = [''GET''], route_path = p, endpoint = h, tags = [],
           include_in_schema = True\<rparr>]"

text \<open>
  \<^verbatim>\<open>add_route(path, endpoint, include_in_schema=...)\<close> on an application appends a plain
  \<^verbatim>\<open>Route\<close>: with no verbs given it answers \<^verbatim>\<open>GET\<close>, and \<^verbatim>\<open>HEAD\<close> is added to every
  route that answers \<^verbatim>\<open>GET\<close>.
\<close>

definition add_route :: "route list \<Rightarrow> string \<Rightarrow> handler \<Rightarrow> bool \<Rightarrow> route list" where
  "add_route rs p h inc =
     rs @ [\<lparr>verbs = [''GET'', ''HEAD''], route_path = p, endpoint = h, tags = [],
            include_in_schema = inc\<rparr>]"

subsection \<open>\<^verbatim>\<open>app/api/v1/routes/play_bot.py\<close>\<close>

text \<open>
  \<^verbatim>\<open>router = APIRouter()\<close> starts empty and \<^verbatim>\<open>@router.get("/status")\<close> appends one
  route for the handler \<^verbatim>\<open>play_bot_status\<close>.
\<close>

definition play_bot_router :: router where
  "play_bot_router = router_get [] ''/status'' PlayBotStatus"

text \<open>
  \<^verbatim>\<open>async def play_bot_status(): return {"status": "ready"}\<close>. The handler takes no
  argument, reads no global and raises nothing; awaiting it yields the dictionary, here
  an association list.
\<close>

definition play_bot_status :: "world \<Rightarrow> (exn + (string \<times> string) list) \<times> world" where
  "play_bot_status w = (Inr [(''status'', ''ready'')], w)"

subsection \<open>\<^verbatim>\<open>app/api/v1/routes/health.py\<close>\<close>

text \<open>
  Modelled from the spec: the module \<^verbatim>\<open>app/api/v1/routes/health.py\<close>, whose \<^verbatim>\<open>router\<close>
  \<^verbatim>\<open>main.py\<close> imports as \<^verbatim>\<open>health_router\<close>, is missing from the sources. The spec names
  it beside the bot status as one of two placeholder HTTP endpoints, the health check; so
  the router is built as the one of \<^verbatim>\<open>play_bot.py\<close> is, an empty \<^verbatim>\<open>APIRouter\<close> with one
  \<^verbatim>\<open>GET\<close> route for the health handler. The spec does not give the route's path, which
  stays the parameter \<open>health_path\<close>.
\<close>

definition health_router :: "string \<Rightarrow> router" where
  "health_router health_path = router_get [] health_path Health"

subsection \<open>\<^verbatim>\<open>app/main.py\<close>\<close>

text \<open>
  \<^verbatim>\<open>app = FastAPI(title="chessOS API", version="0.1.0")\<close>. The constructor ends with the
  framework's \<^verbatim>\<open>setup()\<close>, which, with the documentation URLs at their defaults as here,
  registers four routes outside the schema: \<^verbatim>\<open>/openapi.json\<close>, \<^verbatim>\<open>/docs\<close>,
  \<^verbatim>\<open>/docs/oauth2-redirect\<close> and \<^verbatim>\<open>/redoc\<close>, in this order.
\<close>

record FastAPI =
  title :: string
  version :: string
  routes :: "route list"

definition FastAPI_setup :: "route list \<Rightarrow> route list" where
  "FastAPI_setup rs =
     add_route
       (add_route
          (add_route
             (add_route rs ''/openapi.json'' Openapi False)
             ''/docs'' SwaggerUiHtml False)
          ''/docs/oauth2-redirect'' SwaggerUiRedirect False)
       ''/redoc'' RedocHtml False"

definition FastAPI_init :: "string \<Rightarrow> string \<Rightarrow> FastAPI" where
  "FastAPI_init t v = \<lparr>title = t, version = v, routes = FastAPI_setup []\<rparr>"

text \<open>
  \<^verbatim>\<open>app.include_router(router, prefix=..., tags=[...])\<close> copies each route of the router
  into the application with the prefix put before its path and the call's tags before
  its own; the route stays in the schema exactly when it was (the router's and the call's
  own \<^verbatim>\<open>include_in_schema\<close> are both at their default, true). The routers here hold
  the routes that \<open>router_get\<close> builds.
\<close>

definition include_router :: "FastAPI \<Rightarrow> router \<Rightarrow> string \<Rightarrow> string list \<Rightarrow> FastAPI" where
  "include_router a r prefix ts =
     a\<lparr>routes := routes a @
          map (\<lambda>x. x\<lparr>route_path := prefix @ route_path x, tags := ts @ tags x\<rparr>) r\<rparr>"

text \<open>
  The two calls of \<^verbatim>\<open>main.py\<close>, lines 7 and 8, on the application of line 5.
\<close>

definition app :: "string \<Rightarrow> FastAPI" where
  "app health_path =
     include_router
       (include_router (FastAPI_init ''chessOS API'' ''0.1.0'')
          (health_router health_path) ''/api/v1'' [''health''])
       play_bot_router ''/api/v1/play-bot'' [''play-bot'']"

subsection \<open>Runs of the service\<close>

text \<open>
  After startup the process performs a sequence of actions: a call of
  \<open>get_engine_status\<close> or of \<open>play_bot_status\<close>, an attempt to assign to \<^verbatim>\<open>settings.stockfish_path\<close> (the exception, if
  any, is caught by the caller), or a change of the process environment from outside the
  service (\<open>None\<close> unsets the variable).
\<close>

datatype action =
  CallGetEngineStatus
| CallPlayBotStatus
| AssignStockfishPath "string option"
| Putenv string "string option"

definition assign_stockfish_path :: "string option \<Rightarrow> world \<Rightarrow> (exn + unit) \<times> world" where
  "assign_stockfish_path v w =
     (case Settings_set_stockfish_path v (settings w) of
        Inl e \<Rightarrow> (Inl e, w)
      | Inr s \<Rightarrow> (Inr (), w\<lparr>settings := s\<rparr>))"

definition putenv :: "string \<Rightarrow> string option \<Rightarrow> world \<Rightarrow> world" where
  "putenv k v w = w\<lparr>environ := (environ w)(k := v)\<rparr>"

fun step :: "world \<Rightarrow> action \<Rightarrow> world" where
  "step w CallGetEngineStatus = snd (get_engine_status w)"
| "step w CallPlayBotStatus = snd (play_bot_status w)"
| "step w (AssignStockfishPath v) = snd (assign_stockfish_path v w)"
| "step w (Putenv k v) = putenv k v w"

definition run :: "world \<Rightarrow> action list \<Rightarrow> world" where
  "run w acts = foldl step w acts"

section \<open>Properties\<close>

subsection \<open>Helper facts\<close>

lemma bool_of_iff: "bool_of p = (p \<noteq> None \<and> p \<noteq> Some '''')"
  by (cases p) simp_all

lemma get_engine_status_world: "snd (get_engine_status w) = w"
  by (simp add: get_engine_status_def)

lemma play_bot_status_world: "snd (play_bot_status w) = w"
  by (simp add: play_bot_status_def)

lemma Settings_set_stockfish_path_raises:
  "Settings_set_stockfish_path v s = Inl (Raised ''FrozenInstanceError'')"
  by (simp add: Settings_set_stockfish_path_def dataclass_setattr_def Settings_frozen_def)

text \<open>The same assignment on the unfrozen \<open>EngineStatus\<close> goes through.\<close>

lemma EngineStatus_set_ready_updates:
  "EngineStatus_set_ready v s = Inr (s\<lparr>ready := v\<rparr>)"
  by (simp add: EngineStatus_set_ready_def dataclass_setattr_def EngineStatus_frozen_def)

lemma assign_stockfish_path_raises:
  "assign_stockfish_path v w = (Inl (Raised ''FrozenInstanceError''), w)"
  by (simp add: assign_stockfish_path_def Settings_set_stockfish_path_raises)

text \<open>No action touches the settings or launches a subprocess; so neither does a run.\<close>

lemma settings_step: "settings (step w a) = settings w"
  by (cases a)
     (simp_all add: get_engine_status_world play_bot_status_world
        assign_stockfish_path_raises putenv_def)

lemma processes_step: "processes (step w a) = processes w"
  by (cases a)
     (simp_all add: get_engine_status_world play_bot_status_world
        assign_stockfish_path_raises putenv_def)

lemma settings_run: "settings (run w acts) = settings w"
  unfolding run_def
proof (induction acts arbitrary: w)
  case Nil
  show ?case by simp
next
  case (Cons a acts)
  have "settings (foldl step (step w a) acts) = settings (step w a)"
    by (rule Cons.IH)
  then show ?case by (simp add: settings_step)
qed

lemma processes_run: "processes (run w acts) = processes w"
  unfolding run_def
proof (induction acts arbitrary: w)
  case Nil
  show ?case by simp
next
  case (Cons a acts)
  have "processes (foldl step (step w a) acts) = processes (step w a)"
    by (rule Cons.IH)
  then show ?case by (simp add: processes_step)
qed

lemma startup_stockfish_path: "stockfish_path (settings (startup e)) = e ''STOCKFISH_PATH''"
  by (simp add: startup_def Settings_init_def Settings_default_def os_getenv_def kwarg_def)

lemma FastAPI_init_routes:
  "routes (FastAPI_init t v) =
     [\<lparr>verbs = [''GET'', ''HEAD''], route_path = ''/openapi.json'', endpoint = Openapi,
        tags = [], include_in_schema = False\<rparr>,
      \<lparr>verbs = [''GET'', ''HEAD''], route_path = ''/docs'', endpoint = SwaggerUiHtml,
        tags = [], include_in_schema = False\<rparr>,
      \<lparr>verbs = [''GET'', ''HEAD''], route_path = ''/docs/oauth2-redirect'',
        endpoint = SwaggerUiRedirect, tags = [], include_in_schema = False\<rparr>,
      \<lparr>verbs = [''GET'', ''HEAD''], route_path = ''/redoc'', endpoint = RedocHtml,
        tags = [], include_in_schema = False\<rparr>]"
  by (simp add: FastAPI_init_def FastAPI_setup_def add_route_def)

lemma app_routes:
  "routes (app p) =
     routes (FastAPI_init ''chessOS API'' ''0.1.0'') @
     [\<lparr>verbs = [''GET''], route_path = ''/api/v1'' @ p, endpoint = Health,
        tags = [''health''], include_in_schema = True\<rparr>,
      \<lparr>verbs = [''GET''], route_path = ''/api/v1/play-bot/status'', endpoint = PlayBotStatus,
        tags = [''play-bot''], include_in_schema = True\<rparr>]"
  by (simp add: app_def include_router_def health_router_def play_bot_router_def
      router_get_def)

subsection \<open>The engine status\<close>

text \<open>
  Claim C1. For every configured value of the stockfish path setting,
  \<open>get_engine_status\<close> returns an \<open>EngineStatus\<close> whose \<open>ready\<close> field is true if and only
  if \<open>settings.stockfish_path\<close> is a non-empty string (neither \<^verbatim>\<open>None\<close> nor the empty
  string), and whose \<open>path\<close> field equals \<open>settings.stockfish_path\<close>.
\<close>

theorem get_engine_status_ready_iff_nonempty:
  "ready (fst (get_engine_status w)) =
     (stockfish_path (settings w) \<noteq> None \<and> stockfish_path (settings w) \<noteq> Some '''')
   \<and> path (fst (get_engine_status w)) = stockfish_path (settings w)"
  by (simp add: get_engine_status_def bool_of_iff)

text \<open>
  Claim C10. \<open>get_engine_status\<close> is deterministic: two calls made under the same settings
  value return results that agree in \<open>ready\<close> and in \<open>path\<close>, whatever else differs between
  the two states of the process.
\<close>

theorem get_engine_status_deterministic:
  "settings w1 = settings w2 \<Longrightarrow>
     ready (fst (get_engine_status w1)) = ready (fst (get_engine_status w2))
     \<and> path (fst (get_engine_status w1)) = path (fst (get_engine_status w2))"
  by (simp add: get_engine_status_def)

text \<open>
  Two states with the same settings and different environments: the process as started
  with the variable set, and the same process after the variable has been unset.
\<close>

theorem get_engine_status_deterministic_witness:
  "settings (startup [''STOCKFISH_PATH'' \<mapsto> ''/usr/games/stockfish''])
     = settings (putenv ''STOCKFISH_PATH'' None
         (startup [''STOCKFISH_PATH'' \<mapsto> ''/usr/games/stockfish'']))
   \<and> ready (fst (get_engine_status (startup [''STOCKFISH_PATH'' \<mapsto> ''/usr/games/stockfish''])))
     = ready (fst (get_engine_status
         (putenv ''STOCKFISH_PATH'' None
           (startup [''STOCKFISH_PATH'' \<mapsto> ''/usr/games/stockfish'']))))
   \<and> ready (fst (get_engine_status (startup [''STOCKFISH_PATH'' \<mapsto> ''/usr/games/stockfish''])))"
proof -
  let ?w = "startup [''STOCKFISH_PATH'' \<mapsto> ''/usr/games/stockfish'']"
  have same: "settings ?w = settings (putenv ''STOCKFISH_PATH'' None ?w)"
    by (simp add: putenv_def)
  have "ready (fst (get_engine_status ?w))"
    by (simp add: get_engine_status_def startup_stockfish_path)
  with same get_engine_status_deterministic [OF same] show ?thesis by simp
qed

subsection \<open>The routes\<close>

text \<open>
  Claim C3. The application exposes exactly two placeholder HTTP endpoints: a health check
  registered under the prefix \<^verbatim>\<open>/api/v1\<close> and a bot-status endpoint registered under the
  prefix \<^verbatim>\<open>/api/v1/play-bot\<close>. The route table of \<open>app\<close> is the four documentation routes
  that the constructor registers, followed by the health route and the bot-status route
  and nothing else; these two are exactly the routes of the table that are operations of
  the API schema.
\<close>

theorem app_exposes_two_endpoints:
  "routes (app health_path) =
     routes (FastAPI_init ''chessOS API'' ''0.1.0'') @
     [\<lparr>verbs = [''GET''], route_path = ''/api/v1'' @ health_path, endpoint = Health,
        tags = [''health''], include_in_schema = True\<rparr>,
      \<lparr>verbs = [''GET''], route_path = ''/api/v1/play-bot'' @ ''/status'',
        endpoint = PlayBotStatus, tags = [''play-bot''], include_in_schema = True\<rparr>]
   \<and> map route_path (routes (FastAPI_init ''chessOS API'' ''0.1.0'')) =
       [''/openapi.json'', ''/docs'', ''/docs/oauth2-redirect'', ''/redoc'']
   \<and> map endpoint (routes (FastAPI_init ''chessOS API'' ''0.1.0'')) =
       [Openapi, SwaggerUiHtml, SwaggerUiRedirect, RedocHtml]
   \<and> filter include_in_schema (routes (app health_path)) =
       [\<lparr>verbs = [''GET''], route_path = ''/api/v1'' @ health_path, endpoint = Health,
          tags = [''health''], include_in_schema = True\<rparr>,
        \<lparr>verbs = [''GET''], route_path = ''/api/v1/play-bot'' @ ''/status'',
          endpoint = PlayBotStatus, tags = [''play-bot''], include_in_schema = True\<rparr>]
   \<and> length (filter include_in_schema (routes (app health_path))) = 2
   \<and> length (routes (app health_path)) = 6"
  by (simp add: app_routes FastAPI_init_routes)

text \<open>The table when the health route is declared at \<^verbatim>\<open>/health\<close>.\<close>

theorem app_exposes_two_endpoints_witness:
  "map route_path (routes (app ''/health'')) =
     [''/openapi.json'', ''/docs'', ''/docs/oauth2-redirect'', ''/redoc'',
      ''/api/v1/health'', ''/api/v1/play-bot/status'']
   \<and> map route_path (filter include_in_schema (routes (app ''/health''))) =
     [''/api/v1/health'', ''/api/v1/play-bot/status'']
   \<and> map endpoint (filter include_in_schema (routes (app ''/health''))) =
     [Health, PlayBotStatus]"
  using app_exposes_two_endpoints [of "''/health''"]
  by (simp add: FastAPI_init_routes)

text \<open>
  Claim C8. Every call of the bot-status handler \<open>play_bot_status\<close> returns exactly
  \<open>{"status": "ready"}\<close>, whatever the configuration: in particular in a process started
  with \<^verbatim>\<open>STOCKFISH_PATH\<close> unset, where no engine path is configured.
\<close>

theorem play_bot_status_always_ready:
  "fst (play_bot_status w) = Inr [(''status'', ''ready'')]
   \<and> fst (play_bot_status w) = fst (play_bot_status w')
   \<and> stockfish_path (settings (startup (e(''STOCKFISH_PATH'' := None)))) = None
   \<and> fst (play_bot_status (startup (e(''STOCKFISH_PATH'' := None)))) = Inr [(''status'', ''ready'')]"
  by (simp add: play_bot_status_def startup_stockfish_path)

subsection \<open>The settings\<close>

text \<open>
  Claim C4. The configuration object has a single setting, \<open>stockfish_path\<close>, whose value
  is read from the environment variable \<^verbatim>\<open>STOCKFISH_PATH\<close> once at startup; when the
  variable is unset the value is \<^verbatim>\<open>None\<close>. Read once: no later action, a change of the
  environment included, changes the settings. Single: a \<open>Settings\<close> value is its
  \<open>stockfish_path\<close> and nothing more.
\<close>

theorem settings_read_from_environment_once:
  "stockfish_path (settings (startup e)) = e ''STOCKFISH_PATH''
   \<and> (e ''STOCKFISH_PATH'' = None \<longrightarrow> stockfish_path (settings (startup e)) = None)
   \<and> (e ''STOCKFISH_PATH'' = Some v \<longrightarrow> stockfish_path (settings (startup e)) = Some v)
   \<and> settings (run (startup e) acts) = settings (startup e)
   \<and> (s :: Settings) = \<lparr>stockfish_path = stockfish_path s\<rparr>"
  by (simp add: startup_stockfish_path settings_run)

text \<open>
  A process started with the variable set, which is then unset, and a process started
  without the variable, which is then set: the setting stays what it was at startup.
\<close>

theorem settings_read_from_environment_once_witness:
  "stockfish_path (settings (startup [''STOCKFISH_PATH'' \<mapsto> ''/usr/games/stockfish'']))
     = Some ''/usr/games/stockfish''
   \<and> stockfish_path (settings (run (startup [''STOCKFISH_PATH'' \<mapsto> ''/usr/games/stockfish''])
        [Putenv ''STOCKFISH_PATH'' None, CallGetEngineStatus])) = Some ''/usr/games/stockfish''
   \<and> stockfish_path (settings (startup Map.empty)) = None
   \<and> stockfish_path (settings (run (startup Map.empty)
        [Putenv ''STOCKFISH_PATH'' (Some ''/usr/games/stockfish''), CallGetEngineStatus])) = None"
  using
    settings_read_from_environment_once
      [of "[''STOCKFISH_PATH'' \<mapsto> ''/usr/games/stockfish'']" "''/usr/games/stockfish''"
          "[Putenv ''STOCKFISH_PATH'' None, CallGetEngineStatus]"]
    settings_read_from_environment_once
      [of Map.empty _
          "[Putenv ''STOCKFISH_PATH'' (Some ''/usr/games/stockfish''), CallGetEngineStatus]"]
  by simp

text \<open>
  Claim C9. The settings singleton is immutable after startup: \<open>Settings\<close> is a frozen
  dataclass, so after every run of the program's operations (in particular after
  \<open>get_engine_status\<close>) \<open>settings.stockfish_path\<close> equals the value it had at construction,
  and any attempt to assign to it raises an error and leaves the process as it was.
\<close>

theorem settings_frozen_after_startup:
  "stockfish_path (settings (run (startup e) acts)) = stockfish_path (settings (startup e))
   \<and> settings (snd (get_engine_status w)) = settings w
   \<and> Settings_set_stockfish_path v s = Inl (Raised ''FrozenInstanceError'')
   \<and> assign_stockfish_path v w = (Inl (Raised ''FrozenInstanceError''), w)"
  by (simp add: settings_run get_engine_status_world Settings_set_stockfish_path_raises
      assign_stockfish_path_raises)

subsection \<open>The analysis response\<close>

text \<open>
  Claim C5. \<open>AnalysisResponse\<close> has an optional \<open>best_move\<close> field (a string, absent by
  default) and an optional \<open>evaluation\<close> field (a floating-point value, absent by default):
  constructing an \<open>AnalysisResponse\<close> with no arguments yields \<open>best_move = None\<close> and
  \<open>evaluation = None\<close>.
\<close>

theorem AnalysisResponse_defaults_none:
  "best_move (AnalysisResponse_init None None :: 'f AnalysisResponse) = None
   \<and> evaluation (AnalysisResponse_init None None :: 'f AnalysisResponse) = None
   \<and> map_of AnalysisResponse_fields ''best_move''
       = Some \<lparr>field_annotation = Union Str NoneType, field_default = DefaultNone\<rparr>
   \<and> map_of AnalysisResponse_fields ''evaluation''
       = Some \<lparr>field_annotation = Union Float NoneType, field_default = DefaultNone\<rparr>"
  by (simp add: AnalysisResponse_init_def kwarg_def AnalysisResponse_fields_def)

text \<open>
  Claim C6 says that the response shape carries, besides \<open>best_move\<close> and \<open>evaluation\<close>, a
  completion-status field with the values Ok, Timeout and EngineError. Counterexample:
  the class declares two fields, and \<open>status\<close> is not one of them.
\<close>

theorem AnalysisResponse_has_no_status_field:
  "map_of AnalysisResponse_fields ''status'' = None \<and> length AnalysisResponse_fields = 2"
  by (simp add: AnalysisResponse_fields_def)

text \<open>
  Claim C6, as amended. The analysis response shape carries exactly the two fields
  \<open>best_move\<close> and \<open>evaluation\<close>, in this order, and an instance is these two values and
  nothing more; it has no completion-status field.
\<close>

theorem AnalysisResponse_fields_exactly_two:
  "map fst AnalysisResponse_fields = [''best_move'', ''evaluation'']
   \<and> (r :: 'f AnalysisResponse) = \<lparr>best_move = best_move r, evaluation = evaluation r\<rparr>"
  by (simp add: AnalysisResponse_fields_def)

end
